theory Spec2Isabelle
  imports Complex_Main "HOL-Library.AList"
begin

section \<open>The water-savings service (src/app.js)\<close>

text \<open>
  The service is one Express handler, \<open>GET /water-savings\<close>, over a fetcher with a
  one-hour cache. The embedding follows \<open>src/app.js\<close> top to bottom: the JavaScript
  values the code computes with, the library calls it makes (\<open>parseFloat\<close>,
  \<open>toFixed\<close>, \<open>moment(..).format('YYYY-MM')\<close>, \<open>node-cache\<close>, \<open>axios\<close>), then
  \<open>getWeatherData\<close> and the handler.
\<close>

subsection \<open>Numbers\<close>

text \<open>
  A JavaScript number is \<open>NaN\<close>, one of the two infinities, or a finite value. Finite
  values are modelled by exact reals: rounding to binary64, overflow, underflow and the
  sign of zero are not modelled. The special values are kept, with the arithmetic
  ECMAScript gives them (\<open>NaN\<close> absorbs, \<open>Infinity * 0\<close> and \<open>Infinity - Infinity\<close> are
  \<open>NaN\<close>).
\<close>

datatype jsnum = NaN | PInf | NInf | Fin real

fun js_add :: "jsnum \<Rightarrow> jsnum \<Rightarrow> jsnum" where
  "js_add NaN y = NaN"
| "js_add x NaN = NaN"
| "js_add (Fin a) (Fin b) = Fin (a + b)"
| "js_add PInf NInf = NaN"
| "js_add NInf PInf = NaN"
| "js_add PInf y = PInf"
| "js_add x PInf = PInf"
| "js_add NInf y = NInf"
| "js_add x NInf = NInf"

definition signed_inf :: "bool \<Rightarrow> jsnum" where
  "signed_inf positive = (if positive then PInf else NInf)"

fun js_mul :: "jsnum \<Rightarrow> jsnum \<Rightarrow> jsnum" where
  "js_mul NaN y = NaN"
| "js_mul x NaN = NaN"
| "js_mul (Fin a) (Fin b) = Fin (a * b)"
| "js_mul PInf (Fin b) = (if b = 0 then NaN else signed_inf (0 < b))"
| "js_mul NInf (Fin b) = (if b = 0 then NaN else signed_inf (b < 0))"
| "js_mul (Fin a) PInf = (if a = 0 then NaN else signed_inf (0 < a))"
| "js_mul (Fin a) NInf = (if a = 0 then NaN else signed_inf (a < 0))"
| "js_mul PInf PInf = PInf"
| "js_mul NInf NInf = PInf"
| "js_mul PInf NInf = NInf"
| "js_mul NInf PInf = NInf"

fun js_div :: "jsnum \<Rightarrow> jsnum \<Rightarrow> jsnum" where
  "js_div NaN y = NaN"
| "js_div x NaN = NaN"
| "js_div (Fin a) (Fin b) =
     (if b = 0 then (if a = 0 then NaN else signed_inf (0 < a)) else Fin (a / b))"
| "js_div (Fin a) PInf = Fin 0"
| "js_div (Fin a) NInf = Fin 0"
| "js_div PInf (Fin b) = signed_inf (0 \<le> b)"
| "js_div NInf (Fin b) = signed_inf (b < 0)"
| "js_div x y = NaN"

text \<open>\<open>isNaN(x)\<close> and \<open>x <= y\<close> on numbers; every comparison with \<open>NaN\<close> is false.\<close>

fun isNaN :: "jsnum \<Rightarrow> bool" where
  "isNaN NaN = True"
| "isNaN x = False"

fun js_le :: "jsnum \<Rightarrow> jsnum \<Rightarrow> bool" where
  "js_le NaN y = False"
| "js_le x NaN = False"
| "js_le (Fin a) (Fin b) = (a \<le> b)"
| "js_le NInf y = True"
| "js_le x PInf = True"
| "js_le x y = False"

text \<open>Truthiness of a number: \<open>0\<close> and \<open>NaN\<close> are falsy.\<close>

fun truthy_num :: "jsnum \<Rightarrow> bool" where
  "truthy_num NaN = False"
| "truthy_num (Fin a) = (a \<noteq> 0)"
| "truthy_num x = True"

subsection \<open>Strings and decimal digits\<close>

text \<open>
  Strings are lists of 8-bit characters; the model is exact on ASCII text (a character
  beyond ASCII is its UTF-8 bytes, where JavaScript has UTF-16 code units).
\<close>

definition digit_char :: "nat \<Rightarrow> char" where
  "digit_char d = ''0123456789'' ! d"

fun show_nat :: "nat \<Rightarrow> string" where
  "show_nat n =
     (if n < 10 then [digit_char n] else show_nat (n div 10) @ [digit_char (n mod 10)])"

declare show_nat.simps [simp del]

definition zero_fill :: "nat \<Rightarrow> nat \<Rightarrow> string" where
  "zero_fill width n = replicate (width - length (show_nat n)) (CHR ''0'') @ show_nat n"

definition digit_of :: "char \<Rightarrow> nat option" where
  "digit_of =
     map_of [(CHR ''0'', 0), (CHR ''1'', 1), (CHR ''2'', 2), (CHR ''3'', 3), (CHR ''4'', 4),
             (CHR ''5'', 5), (CHR ''6'', 6), (CHR ''7'', 7), (CHR ''8'', 8), (CHR ''9'', 9)]"

definition hex_digit_of :: "char \<Rightarrow> nat option" where
  "hex_digit_of c =
     (case digit_of c of
        Some d \<Rightarrow> Some d
      | None \<Rightarrow>
          map_of [(CHR ''a'', 10), (CHR ''b'', 11), (CHR ''c'', 12), (CHR ''d'', 13),
                  (CHR ''e'', 14), (CHR ''f'', 15), (CHR ''A'', 10), (CHR ''B'', 11),
                  (CHR ''C'', 12), (CHR ''D'', 13), (CHR ''E'', 14), (CHR ''F'', 15)] c)"

definition is_digit :: "char \<Rightarrow> bool" where
  "is_digit c = (digit_of c \<noteq> None)"

text \<open>The value of a digit string in a base; a character that is no digit counts 0.\<close>

definition digits_value :: "nat \<Rightarrow> string \<Rightarrow> nat" where
  "digits_value base ds =
     foldl (\<lambda>acc c. base * acc + (case hex_digit_of c of Some d \<Rightarrow> d | None \<Rightarrow> 0)) 0 ds"

text \<open>
  \<open>StrWhiteSpaceChar\<close>, on ASCII: TAB, LF, VT, FF, CR and SP. (The Unicode spaces and
  line separators beyond ASCII are not modelled.)
\<close>

definition is_ws :: "char \<Rightarrow> bool" where
  "is_ws c = (c \<in> set [CHR 0x09, CHR 0x0A, CHR 0x0B, CHR 0x0C, CHR 0x0D, CHR 0x20])"

subsection \<open>\<open>Number.prototype.toFixed\<close>\<close>

text \<open>
  \<open>x.toFixed(f)\<close> after ECMA-262: a non-finite \<open>x\<close> prints as \<open>ToString(x)\<close>; otherwise
  the sign is split off, and below \<open>10^21\<close> the integer \<open>n\<close> with \<open>n / 10^f\<close> nearest to
  \<open>x\<close> (the larger one on a tie) is printed with a point before its last \<open>f\<close> digits,
  zero-filled to \<open>f + 1\<close> digits. From \<open>10^21\<close> on the result is \<open>ToString(x)\<close>, the
  engine's exponential notation, which is taken as the parameter \<open>big_to_string\<close>.
\<close>

definition toFixed :: "(real \<Rightarrow> string) \<Rightarrow> nat \<Rightarrow> jsnum \<Rightarrow> string" where
  "toFixed big_to_string f x =
     (case x of
        NaN \<Rightarrow> ''NaN''
      | PInf \<Rightarrow> ''Infinity''
      | NInf \<Rightarrow> ''-Infinity''
      | Fin r \<Rightarrow>
          (let s = (if r < 0 then ''-'' else '''');
               a = \<bar>r\<bar>
           in if 10 ^ 21 \<le> a then s @ big_to_string a
              else
                (let n = nat \<lfloor>a * 10 ^ f + 1 / 2\<rfloor>;
                     m = zero_fill (f + 1) n;
                     k = length m
                 in if f = 0 then s @ m
                    else s @ take (k - f) m @ ''.'' @ drop (k - f) m)))"

subsection \<open>\<open>parseFloat\<close> and \<open>StringToNumber\<close>\<close>

text \<open>
  Both read a \<open>StrDecimalLiteral\<close>: an optional sign, then \<open>Infinity\<close> or decimal
  digits with an optional fraction and an optional exponent (\<open>.5\<close>, \<open>5.\<close> and \<open>5e3\<close>
  are literals; \<open>.\<close> and \<open>e3\<close> are not; an \<open>e\<close> with no digits after it is not part of
  the literal). \<open>str_decimal_literal\<close> returns the value of the longest such prefix and
  the rest of the string.
\<close>

definition take_sign :: "string \<Rightarrow> bool \<times> string" where
  "take_sign s =
     (case s of
        [] \<Rightarrow> (False, s)
      | c # t \<Rightarrow> if c = CHR ''-'' then (True, t) else if c = CHR ''+'' then (False, t) else (False, s))"

definition exponent_part :: "string \<Rightarrow> int \<times> string" where
  "exponent_part r =
     (case r of
        [] \<Rightarrow> (0, r)
      | c # t \<Rightarrow>
          if c = CHR ''e'' \<or> c = CHR ''E'' then
            (let (neg, t1) = take_sign t;
                 ds = takeWhile is_digit t1
             in if ds = [] then (0, r)
                else ((if neg then - int (digits_value 10 ds) else int (digits_value 10 ds)),
                      dropWhile is_digit t1))
          else (0, r))"

definition scale10 :: "real \<Rightarrow> int \<Rightarrow> real" where
  "scale10 m e = (if 0 \<le> e then m * 10 ^ nat e else m / 10 ^ nat (- e))"

definition str_decimal_literal :: "string \<Rightarrow> (jsnum \<times> string) option" where
  "str_decimal_literal s =
     (let (neg, s1) = take_sign s
      in if take 8 s1 = ''Infinity'' then Some (signed_inf (\<not> neg), drop 8 s1)
         else
           (let ip = takeWhile is_digit s1;
                r1 = dropWhile is_digit s1;
                (fp, r2) =
                  (case r1 of
                     [] \<Rightarrow> ([], r1)
                   | c # t \<Rightarrow>
                       if c = CHR ''.'' then (takeWhile is_digit t, dropWhile is_digit t)
                       else ([], r1))
            in if ip = [] \<and> fp = [] then None
               else
                 (let (ex, r3) = exponent_part r2;
                      m = scale10 (real (digits_value 10 (ip @ fp)) / 10 ^ length fp) ex
                  in Some (Fin (if neg then - m else m), r3))))"

text \<open>
  \<open>parseFloat(string)\<close>: leading white space is skipped, the longest literal prefix is
  the result, and there is \<open>NaN\<close> when no prefix is a literal.
\<close>

definition parseFloat :: "string \<Rightarrow> jsnum" where
  "parseFloat s =
     (case str_decimal_literal (dropWhile is_ws s) of
        Some (v, rest) \<Rightarrow> v
      | None \<Rightarrow> NaN)"

text \<open>
  \<open>StringToNumber\<close>, the coercion of a string operand of \<open>*\<close>: white space is trimmed
  at both ends, the empty string is \<open>0\<close>, and the whole of what is left must be a
  decimal literal or an unsigned \<open>0x\<close>, \<open>0o\<close> or \<open>0b\<close> integer; anything else is \<open>NaN\<close>.
\<close>

definition non_decimal_literal :: "string \<Rightarrow> jsnum option" where
  "non_decimal_literal t =
     (case t of
        z # x # ds \<Rightarrow>
          (let base =
                 (if x = CHR ''x'' \<or> x = CHR ''X'' then 16
                  else if x = CHR ''o'' \<or> x = CHR ''O'' then 8
                  else if x = CHR ''b'' \<or> x = CHR ''B'' then 2 else (0::nat))
           in if z = CHR ''0'' \<and> base \<noteq> 0 \<and> ds \<noteq> [] \<and>
                 (\<forall>c \<in> set ds. case hex_digit_of c of Some d \<Rightarrow> d < base | None \<Rightarrow> False)
              then Some (Fin (real (digits_value base ds)))
              else None)
      | _ \<Rightarrow> None)"

definition StringToNumber :: "string \<Rightarrow> jsnum" where
  "StringToNumber s =
     (let t = rev (dropWhile is_ws (rev (dropWhile is_ws s)))
      in if t = [] then Fin 0
         else
           (case non_decimal_literal t of
              Some v \<Rightarrow> v
            | None \<Rightarrow>
                (case str_decimal_literal t of
                   Some (v, rest) \<Rightarrow> if rest = [] then v else NaN
                 | None \<Rightarrow> NaN)))"

subsection \<open>JSON values\<close>

text \<open>
  What \<open>axios\<close> hands back as \<open>response.data\<close> is a parsed JSON value. A JavaScript
  value that may also be \<open>undefined\<close> is a \<open>json option\<close>, \<open>None\<close> for \<open>undefined\<close>.
  An object is its members in source order; as in \<open>JSON.parse\<close>, the last of several
  members with one name is the one that counts.
\<close>

datatype json =
    JNull
  | JBool bool
  | JNum jsnum
  | JStr string
  | JArr "json list"
  | JObj "(string \<times> json) list"

fun truthy :: "json \<Rightarrow> bool" where
  "truthy JNull = False"
| "truthy (JBool b) = b"
| "truthy (JNum n) = truthy_num n"
| "truthy (JStr s) = (s \<noteq> [])"
| "truthy (JArr xs) = True"
| "truthy (JObj kvs) = True"

datatype js_error = TypeError (message: string) | AxiosError (message: string)

text \<open>
  \<open>o.name\<close> for the three names the handler reads (\<open>hourly\<close>, \<open>time\<close>,
  \<open>precipitation\<close>), none of which a prototype defines: reading from \<open>null\<close> throws a
  \<open>TypeError\<close> (the message is V8's), an object gives its member or \<open>undefined\<close>, and
  a boolean, number, string or array gives \<open>undefined\<close>.
\<close>

definition get_prop :: "json \<Rightarrow> string \<Rightarrow> js_error + json option" where
  "get_prop o_val name =
     (case o_val of
        JNull \<Rightarrow>
          Inl (TypeError (''Cannot read properties of null (reading '' @ [CHR 0x27] @ name
                          @ [CHR 0x27] @ '')''))
      | JObj kvs \<Rightarrow> Inr (map_of (rev kvs) name)
      | _ \<Rightarrow> Inr None)"

text \<open>
  \<open>precipitation[index]\<close> on a truthy value (the handler has checked it): an array
  element, a one-character string, the member of an object named by the index in
  decimal, and \<open>undefined\<close> for everything else and out of range.
\<close>

fun index_prop :: "json \<Rightarrow> nat \<Rightarrow> json option" where
  "index_prop (JArr xs) i = (if i < length xs then Some (xs ! i) else None)"
| "index_prop (JStr s) i = (if i < length s then Some (JStr [s ! i]) else None)"
| "index_prop (JObj kvs) i = map_of (rev kvs) (show_nat i)"
| "index_prop v i = None"

text \<open>
  \<open>ToNumber\<close>, as the operator \<open>*\<close> applies it to an operand: \<open>undefined\<close> is \<open>NaN\<close>,
  \<open>null\<close> is \<open>0\<close>, a string goes through \<open>StringToNumber\<close>, an object is \<open>NaN\<close>, and an
  array is the number of its joined elements: \<open>0\<close> when empty, \<open>NaN\<close> with two or more
  elements (the join has a comma), and with one element that element's number, except
  that a boolean prints as a word and an object as \<open>[object Object]\<close>.
\<close>

fun to_number :: "json \<Rightarrow> jsnum" where
  "to_number JNull = Fin 0"
| "to_number (JBool b) = Fin (if b then 1 else 0)"
| "to_number (JNum n) = n"
| "to_number (JStr s) = StringToNumber s"
| "to_number (JArr []) = Fin 0"
| "to_number (JArr [x]) = (case x of JBool b \<Rightarrow> NaN | JObj kvs \<Rightarrow> NaN | _ \<Rightarrow> to_number x)"
| "to_number (JArr (x # y # zs)) = NaN"
| "to_number (JObj kvs) = NaN"

definition ToNumber :: "json option \<Rightarrow> jsnum" where
  "ToNumber v = (case v of None \<Rightarrow> NaN | Some j \<Rightarrow> to_number j)"

subsection \<open>\<open>moment(date).format('YYYY-MM')\<close>\<close>

text \<open>
  \<open>moment\<close> is a library the repository calls; its behaviour is modelled on the ISO 8601
  strings the upstream API sends and their zoned variants:
  \<open>YYYY-MM-DD\<close>, optionally followed by \<open>T\<close> or a space and \<open>HH:mm\<close>, optionally
  \<open>:ss\<close>, optionally a zone \<open>Z\<close> or \<open>+HH:MM\<close> / \<open>-HH:MM\<close>, for a valid calendar date
  in the years 1000 to 9998. On such a string \<open>moment\<close> (in its default, local mode)
  reads a time without a zone as host-local time, and converts a time with a zone to
  the host's local time; \<open>format\<close> then prints the local year and month. The host's zone
  is a fixed offset from UTC in minutes (daylight-saving changes are not modelled). For
  every other input \<open>iso_month\<close> gives \<open>None\<close> and the label is left to the parameter
  \<open>moment_other\<close>.
\<close>

definition leap_year :: "nat \<Rightarrow> bool" where
  "leap_year y = ((y mod 4 = 0 \<and> y mod 100 \<noteq> 0) \<or> y mod 400 = 0)"

definition days_in_month :: "nat \<Rightarrow> nat \<Rightarrow> nat" where
  "days_in_month y m =
     (if m = 2 then (if leap_year y then 29 else 28)
      else if m = 4 \<or> m = 6 \<or> m = 9 \<or> m = 11 then 30 else 31)"

definition next_day :: "nat \<times> nat \<times> nat \<Rightarrow> nat \<times> nat \<times> nat" where
  "next_day ymd =
     (case ymd of (y, m, d) \<Rightarrow>
        if d < days_in_month y m then (y, m, d + 1)
        else if m < 12 then (y, m + 1, 1) else (y + 1, 1, 1))"

definition prev_day :: "nat \<times> nat \<times> nat \<Rightarrow> nat \<times> nat \<times> nat" where
  "prev_day ymd =
     (case ymd of (y, m, d) \<Rightarrow>
        if 1 < d then (y, m, d - 1)
        else if 1 < m then (y, m - 1, days_in_month y (m - 1)) else (y - 1, 12, 31))"

definition shift_days :: "int \<Rightarrow> nat \<times> nat \<times> nat \<Rightarrow> nat \<times> nat \<times> nat" where
  "shift_days k ymd = (if 0 \<le> k then (next_day ^^ nat k) ymd else (prev_day ^^ nat (- k)) ymd)"

definition two_digits :: "char \<Rightarrow> char \<Rightarrow> nat option" where
  "two_digits a b =
     (case (digit_of a, digit_of b) of
        (Some x, Some y) \<Rightarrow> Some (10 * x + y)
      | _ \<Rightarrow> None)"

text \<open>
  The zone: \<open>Some None\<close> when there is none, \<open>Some (Some minutes)\<close> for \<open>Z\<close> and
  \<open>+HH:MM\<close> / \<open>-HH:MM\<close>, \<open>None\<close> when the text is neither.
\<close>

definition iso_zone :: "string \<Rightarrow> int option option" where
  "iso_zone z =
     (if z = [] then Some None
      else if z = ''Z'' then Some (Some 0)
      else
        (case z of
           [sg, h1, h2, c, m1, m2] \<Rightarrow>
             (case (two_digits h1 h2, two_digits m1 m2) of
                (Some hh, Some mm) \<Rightarrow>
                  if (sg = CHR ''+'' \<or> sg = CHR ''-'') \<and> c = CHR '':'' \<and> hh \<le> 23 \<and> mm \<le> 59
                  then Some (Some ((if sg = CHR ''-'' then - 1 else 1) * int (60 * hh + mm)))
                  else None
              | _ \<Rightarrow> None)
         | _ \<Rightarrow> None))"

definition iso_seconds :: "string \<Rightarrow> string option" where
  "iso_seconds r =
     (case r of
        [] \<Rightarrow> Some []
      | c # t \<Rightarrow>
          if c = CHR '':'' then
            (case t of
               s1 # s2 # u \<Rightarrow>
                 (case two_digits s1 s2 of
                    Some ss \<Rightarrow> if ss \<le> 59 then Some u else None
                  | None \<Rightarrow> None)
             | _ \<Rightarrow> None)
          else Some r)"

text \<open>The time of day and zone after the date: hour, minute and zone offset.\<close>

definition iso_time :: "string \<Rightarrow> (nat \<times> nat \<times> int option) option" where
  "iso_time r =
     (case r of
        [] \<Rightarrow> Some (0, 0, None)
      | sep # h1 # h2 # c # m1 # m2 # u \<Rightarrow>
          (case (two_digits h1 h2, two_digits m1 m2) of
             (Some hh, Some mm) \<Rightarrow>
               if (sep = CHR ''T'' \<or> sep = CHR '' '') \<and> c = CHR '':'' \<and> hh \<le> 23 \<and> mm \<le> 59 then
                 (case iso_seconds u of
                    Some z \<Rightarrow>
                      (case iso_zone z of
                         Some zone \<Rightarrow> Some (hh, mm, zone)
                       | None \<Rightarrow> None)
                  | None \<Rightarrow> None)
               else None
           | _ \<Rightarrow> None)
      | _ \<Rightarrow> None)"

definition parse_iso :: "string \<Rightarrow> ((nat \<times> nat \<times> nat) \<times> nat \<times> nat \<times> int option) option" where
  "parse_iso s =
     (case s of
        y1 # y2 # y3 # y4 # c1 # m1 # m2 # c2 # d1 # d2 # r \<Rightarrow>
          (case (two_digits y1 y2, two_digits y3 y4, two_digits m1 m2, two_digits d1 d2) of
             (Some yh, Some yl, Some m, Some d) \<Rightarrow>
               if c1 = CHR ''-'' \<and> c2 = CHR ''-'' then
                 (case iso_time r of
                    Some (hh, mm, zone) \<Rightarrow> Some ((100 * yh + yl, m, d), hh, mm, zone)
                  | None \<Rightarrow> None)
               else None
           | _ \<Rightarrow> None)
      | _ \<Rightarrow> None)"

definition year_month :: "nat \<Rightarrow> nat \<Rightarrow> string" where
  "year_month y m = zero_fill 4 y @ ''-'' @ zero_fill 2 m"

definition iso_month :: "int \<Rightarrow> string \<Rightarrow> string option" where
  "iso_month host_offset s =
     (case parse_iso s of
        None \<Rightarrow> None
      | Some ((y, m, d), hh, mm, zone) \<Rightarrow>
          if \<not> (1000 \<le> y \<and> y \<le> 9998 \<and> 1 \<le> m \<and> m \<le> 12 \<and> 1 \<le> d \<and> d \<le> days_in_month y m)
          then None
          else
            (case zone of
               None \<Rightarrow> Some (year_month y m)
             | Some off \<Rightarrow>
                 if \<bar>host_offset\<bar> \<le> 1440 then
                   (case shift_days ((int (60 * hh + mm) - off + host_offset) div 1440) (y, m, d) of
                      (y', m', d') \<Rightarrow> Some (year_month y' m'))
                 else None))"

subsection \<open>What the service is run with\<close>

text \<open>
  The query parameters \<open>axios\<close> is called with, and the parts of the environment the
  code depends on: the host's UTC offset, \<open>moment\<close> outside the modelled inputs, the
  engine's \<open>ToString\<close> for numbers from \<open>10^21\<close>, and the upstream API. \<open>axios_get\<close> is
  the outcome of \<open>axios.get(API_URL, { params })\<close> for a request issued at a time (in
  milliseconds), once \<open>axios-retry\<close> has given up or succeeded: the response body or
  the error thrown, with the time the call took.
\<close>

record params =
  params_latitude :: string
  params_longitude :: string
  start_date :: string
  end_date :: string
  hourly :: string

record environment =
  host_offset :: int
  moment_other :: "json \<Rightarrow> string"
  big_to_string :: "real \<Rightarrow> string"
  axios_get :: "params \<Rightarrow> nat \<Rightarrow> (js_error + json) \<times> nat"

definition moment_format :: "environment \<Rightarrow> json \<Rightarrow> string" where
  "moment_format env date =
     (case date of
        JStr s \<Rightarrow>
          (case iso_month (host_offset env) s of
             Some label \<Rightarrow> label
           | None \<Rightarrow> moment_other env date)
      | _ \<Rightarrow> moment_other env date)"

subsection \<open>The cache\<close>

text \<open>
  Modelled from the spec: \<open>node-cache\<close> is a library, not a source file of the
  repository. Section 4.1 gives its contract: \<open>get(key)\<close> returns the stored value or
  nothing, \<open>set(key, value)\<close> stores with a fixed time-to-live of 3600 seconds from the
  time of insertion, and an expired entry is never returned. As in the library, an entry
  holds its value and the time \<open>t\<close> it lives to, and \<open>get\<close> treats it as expired when
  \<open>t < now\<close>. (The library also deletes an expired entry, on a read or in a periodic
  sweep; the spec leaves that open, since no \<open>get\<close> can observe it, and the model
  keeps the entry.) Times are in milliseconds.
\<close>

type_synonym node_cache = "string \<Rightarrow> (json \<times> nat) option"

definition stdTTL :: nat where
  "stdTTL = 3600"

definition cache_get :: "nat \<Rightarrow> string \<Rightarrow> node_cache \<Rightarrow> json option" where
  "cache_get now key c =
     (case c key of
        None \<Rightarrow> None
      | Some (v, t) \<Rightarrow> if t \<noteq> 0 \<and> t < now then None else Some v)"

definition cache_set :: "nat \<Rightarrow> string \<Rightarrow> json \<Rightarrow> node_cache \<Rightarrow> node_cache" where
  "cache_set now key v c = c(key \<mapsto> (v, now + stdTTL * 1000))"

subsection \<open>\<open>getWeatherData\<close>\<close>

text \<open>
  Lines 23 to 53. The state of the server is the cache and the log of the requests sent
  upstream. A call runs at a time \<open>now\<close>: the key is the four arguments joined by
  commas, a truthy cached value is returned as it is, and otherwise the request goes
  upstream; its response is cached when the upstream call has taken its time, and its
  error is thrown on (\<open>Inl\<close>) with nothing cached. Calls are modelled one after the
  other (requests in flight at once are outside the model).
\<close>

record server =
  cache :: node_cache
  requests :: "params list"

definition cache_key :: "string \<Rightarrow> string \<Rightarrow> string \<Rightarrow> string \<Rightarrow> string" where
  "cache_key latitude longitude startDate endDate =
     latitude @ '','' @ longitude @ '','' @ startDate @ '','' @ endDate"

definition request_params :: "string \<Rightarrow> string \<Rightarrow> string \<Rightarrow> string \<Rightarrow> params" where
  "request_params latitude longitude startDate endDate =
     \<lparr>params_latitude = latitude, params_longitude = longitude,
      start_date = startDate, end_date = endDate, hourly = ''precipitation''\<rparr>"

definition getWeatherData ::
  "environment \<Rightarrow> nat \<Rightarrow> string \<Rightarrow> string \<Rightarrow> string \<Rightarrow> string \<Rightarrow> server \<Rightarrow> (js_error + json) \<times> server" where
  "getWeatherData env now latitude longitude startDate endDate s =
     (let cacheKey = cache_key latitude longitude startDate endDate;
          cachedData = cache_get now cacheKey (cache s);
          fetched =
            (let ps = request_params latitude longitude startDate endDate;
                 (response, took) = axios_get env ps now;
                 s1 = s\<lparr>requests := requests s @ [ps]\<rparr>
             in case response of
                  Inr data \<Rightarrow>
                    (Inr data, s1\<lparr>cache := cache_set (now + took) cacheKey data (cache s1)\<rparr>)
                | Inl error \<Rightarrow> (Inl error, s1))
      in case cachedData of
           Some d \<Rightarrow> if truthy d then (Inr d, s) else fetched
         | None \<Rightarrow> fetched)"

subsection \<open>The aggregation loop\<close>

text \<open>
  \<open>monthlyWaterCollected\<close> is an object whose keys are month labels, kept here in
  insertion order. (A label printed by \<open>format('YYYY-MM')\<close> is never the name of a
  property that an empty object inherits, so a bucket is there only once the loop has
  written it.) One pass of the body of \<open>dates.forEach((date, index) => ...)\<close>: the
  bucket of the month is set to \<open>0\<close> when it is falsy (absent, \<open>0\<close> or \<open>NaN\<close>), then the
  litres of the hour are added to the bucket and to the total.
\<close>

type_synonym buckets = "(string \<times> jsnum) list"

text \<open>\<open>!monthlyWaterCollected[month]\<close>, and the bucket read as the left operand of \<open>+=\<close>.\<close>

definition bucket_falsy :: "buckets \<Rightarrow> string \<Rightarrow> bool" where
  "bucket_falsy monthly month =
     (case map_of monthly month of None \<Rightarrow> True | Some v \<Rightarrow> \<not> truthy_num v)"

definition read_bucket :: "buckets \<Rightarrow> string \<Rightarrow> jsnum" where
  "read_bucket monthly month = (case map_of monthly month of None \<Rightarrow> NaN | Some v \<Rightarrow> v)"

definition loop_body ::
  "environment \<Rightarrow> jsnum \<Rightarrow> json \<Rightarrow> json \<Rightarrow> nat \<Rightarrow> buckets \<times> jsnum \<Rightarrow> buckets \<times> jsnum" where
  "loop_body env area precipitation date index acc =
     (case acc of (monthly, litres) \<Rightarrow>
        (let month = moment_format env date;
             rainfallMm = index_prop precipitation index;
             monthly1 =
               (if bucket_falsy monthly month then AList.update month (Fin 0) monthly
                else monthly);
             waterCollected = js_mul (js_mul area (ToNumber rainfallMm)) (Fin (929 / 10000))
         in (AList.update month (js_add (read_bucket monthly1 month) waterCollected) monthly1,
             js_add litres waterCollected)))"

fun forEach ::
  "environment \<Rightarrow> jsnum \<Rightarrow> json \<Rightarrow> nat \<Rightarrow> json list \<Rightarrow> buckets \<times> jsnum \<Rightarrow> buckets \<times> jsnum" where
  "forEach env area precipitation index [] acc = acc"
| "forEach env area precipitation index (date # dates) acc =
     forEach env area precipitation (Suc index) dates
       (loop_body env area precipitation date index acc)"

subsection \<open>The response\<close>

text \<open>
  A response is its status and the object given to \<open>res.json\<close>: \<open>{ error: ... }\<close> or
  the report of lines 104 to 110. The buckets of the report are the numbers of the
  loop (\<open>res.json\<close> prints a \<open>NaN\<close> or an infinity among them as \<open>null\<close>).
\<close>

record savings_report =
  monthlyWaterCollected :: buckets
  totalWaterCollected :: string
  moneySaved :: string
  waterCostPer1000LitrePounds :: jsnum
  waterCollectedFormula :: string

datatype body = ErrorBody string | ReportBody savings_report

datatype response = Response (status: nat) (body: body)

definition WATER_COST_PER_1000_LITRES :: jsnum where
  "WATER_COST_PER_1000_LITRES = Fin (3 / 2)"

text \<open>The formula text holds a multiplication sign and a superscript two, as UTF-8.\<close>

definition formula_text :: string where
  "formula_text =
     ''Water Collected (litres) = Area (sq. ft.) '' @ [CHR 0xC3, CHR 0x97]
     @ '' Rainfall (mm) '' @ [CHR 0xC3, CHR 0x97]
     @ '' 0.0929 (1 sq. ft. = 0.0929 m'' @ [CHR 0xC2, CHR 0xB2] @ '')''"

text \<open>
  Lines 80 to 110: the loop from an empty object and a total of \<open>0\<close>, the money saved
  from the unrounded total, and the body of the 200 response.
\<close>

definition aggregate :: "environment \<Rightarrow> jsnum \<Rightarrow> json list \<Rightarrow> json \<Rightarrow> response" where
  "aggregate env area dates precipitation =
     (case forEach env area precipitation 0 dates ([], Fin 0) of
        (monthly, litres) \<Rightarrow>
          (let money = js_mul (js_div litres (Fin 1000)) WATER_COST_PER_1000_LITRES
           in Response 200
                (ReportBody
                   \<lparr>monthlyWaterCollected = monthly,
                    totalWaterCollected = toFixed (big_to_string env) 2 litres,
                    moneySaved = toFixed (big_to_string env) 2 money,
                    waterCostPer1000LitrePounds = WATER_COST_PER_1000_LITRES,
                    waterCollectedFormula = formula_text\<rparr>)))"

definition invalid_structure :: response where
  "invalid_structure = Response 500 (ErrorBody ''Invalid weather data structure'')"

text \<open>
  Lines 74 to 110, the part of the \<open>try\<close> block after the fetch: the shape check, then
  the aggregation. \<open>Inl\<close> is an exception thrown inside the block: a property read from
  \<open>null\<close>, or \<open>dates.forEach\<close> when \<open>dates\<close> is not an array (no JSON value other than
  an array has a callable \<open>forEach\<close>).
\<close>

definition process_weather :: "environment \<Rightarrow> jsnum \<Rightarrow> json \<Rightarrow> js_error + response" where
  "process_weather env area weatherData =
     (case get_prop weatherData ''hourly'' of
        Inl e \<Rightarrow> Inl e
      | Inr None \<Rightarrow> Inr invalid_structure
      | Inr (Some h) \<Rightarrow>
          if \<not> truthy h then Inr invalid_structure
          else
            (case get_prop h ''time'' of
               Inl e \<Rightarrow> Inl e
             | Inr None \<Rightarrow> Inr invalid_structure
             | Inr (Some dates) \<Rightarrow>
                 if \<not> truthy dates then Inr invalid_structure
                 else
                   (case get_prop h ''precipitation'' of
                      Inl e \<Rightarrow> Inl e
                    | Inr None \<Rightarrow> Inr invalid_structure
                    | Inr (Some precipitation) \<Rightarrow>
                        if \<not> truthy precipitation then Inr invalid_structure
                        else
                          (case dates of
                             JArr ds \<Rightarrow> Inr (aggregate env area ds precipitation)
                           | _ \<Rightarrow> Inl (TypeError ''dates.forEach is not a function'')))))"

subsection \<open>The handler of \<open>GET /water-savings\<close>\<close>

text \<open>
  Lines 56 to 114. \<open>req.query\<close> with the five parameters the handler reads, each a
  string or absent.
  (Express can also deliver an array or an object for a repeated or bracketed
  parameter; those are outside the model.) \<open>!x\<close> holds for an absent parameter and for
  the empty string.
\<close>

record query =
  latitude :: "string option"
  longitude :: "string option"
  startDate :: "string option"
  endDate :: "string option"
  areaSqFt :: "string option"

definition missing :: "string option \<Rightarrow> bool" where
  "missing p = (case p of None \<Rightarrow> True | Some v \<Rightarrow> v = [])"

text \<open>A parameter inside a template literal or as the argument of \<open>parseFloat\<close>.\<close>

definition to_string :: "string option \<Rightarrow> string" where
  "to_string p = (case p of None \<Rightarrow> ''undefined'' | Some v \<Rightarrow> v)"

definition missing_parameters :: response where
  "missing_parameters =
     Response 400
       (ErrorBody
          ''Missing required parameters (latitude, longitude, startDate, endDate, areaSqFt)'')"

definition invalid_area :: response where
  "invalid_area = Response 400 (ErrorBody ''Invalid area value'')"

definition required_missing :: "query \<Rightarrow> bool" where
  "required_missing q =
     (missing (latitude q) \<or> missing (longitude q) \<or> missing (startDate q)
      \<or> missing (endDate q) \<or> missing (areaSqFt q))"

definition water_savings :: "environment \<Rightarrow> nat \<Rightarrow> query \<Rightarrow> server \<Rightarrow> response \<times> server" where
  "water_savings env now q s =
     (if required_missing q then (missing_parameters, s)
      else
        (let area = parseFloat (to_string (areaSqFt q))
         in if isNaN area \<or> js_le area (Fin 0) then (invalid_area, s)
            else
              (case getWeatherData env now (to_string (latitude q)) (to_string (longitude q))
                      (to_string (startDate q)) (to_string (endDate q)) s of
                 (Inl error, s') \<Rightarrow> (Response 500 (ErrorBody (message error)), s')
               | (Inr weatherData, s') \<Rightarrow>
                   (case process_weather env area weatherData of
                      Inl error \<Rightarrow> (Response 500 (ErrorBody (message error)), s')
                    | Inr res \<Rightarrow> (res, s')))))"

subsection \<open>Notions of the specification\<close>


definition member :: "json \<Rightarrow> string \<Rightarrow> json option" where
  "member v name = (case v of JObj kvs \<Rightarrow> map_of (rev kvs) name | _ \<Rightarrow> None)"


definition positive_number :: "jsnum \<Rightarrow> bool" where
  "positive_number x = (case x of Fin r \<Rightarrow> 0 < r | PInf \<Rightarrow> True | _ \<Rightarrow> False)"

subsection \<open>Example inputs\<close>

text \<open>
  Concrete inputs for the instances below: a host on a fixed UTC offset whose upstream
  call always has one outcome, a query for a point in London with a given area, the
  payload of a series, and a server that has not served a request yet.
\<close>

definition example_host :: "int \<Rightarrow> (js_error + json) \<Rightarrow> environment" where
  "example_host offset outcome =
     \<lparr>host_offset = offset,
      moment_other = (\<lambda>date. ''Invalid date''),
      big_to_string = (\<lambda>r. ''1e+21''),
      axios_get = (\<lambda>ps t. (outcome, 250))\<rparr>"

definition example_query :: "string \<Rightarrow> query" where
  "example_query area =
     \<lparr>latitude = Some ''51.5'', longitude = Some ''-0.12'', startDate = Some ''2024-01-01'',
      endDate = Some ''2024-01-02'', areaSqFt = Some area\<rparr>"

definition series_payload :: "json list \<Rightarrow> json list \<Rightarrow> json" where
  "series_payload stamps rain =
     JObj [(''hourly'', JObj [(''time'', JArr stamps), (''precipitation'', JArr rain)])]"

definition fresh_server :: server where
  "fresh_server = \<lparr>cache = Map.empty, requests = []\<rparr>"

section \<open>Properties\<close>

subsection \<open>Arithmetic with \<open>NaN\<close>\<close>

lemma js_add_NaN_right [simp]: "js_add x NaN = NaN"
  by (cases x) simp_all

lemma js_mul_NaN_right [simp]: "js_mul x NaN = NaN"
  by (cases x) simp_all

lemma not_valid_area: "(isNaN x \<or> js_le x (Fin 0)) = (\<not> positive_number x)"
  by (cases x) (auto simp: positive_number_def)

subsection \<open>The handler, branch by branch\<close>

lemma water_savings_missing:
  "required_missing q \<Longrightarrow> water_savings env now q s = (missing_parameters, s)"
  by (simp add: water_savings_def)

lemma water_savings_invalid_area:
  "\<not> required_missing q \<Longrightarrow> \<not> positive_number (parseFloat (to_string (areaSqFt q))) \<Longrightarrow>
   water_savings env now q s = (invalid_area, s)"
  by (simp add: water_savings_def Let_def not_valid_area)

lemma water_savings_fetch_failed:
  "\<not> required_missing q \<Longrightarrow> positive_number (parseFloat (to_string (areaSqFt q))) \<Longrightarrow>
   getWeatherData env now (to_string (latitude q)) (to_string (longitude q))
     (to_string (startDate q)) (to_string (endDate q)) s = (Inl e, s') \<Longrightarrow>
   water_savings env now q s = (Response 500 (ErrorBody (message e)), s')"
  by (simp add: water_savings_def Let_def not_valid_area)

lemma water_savings_fetched:
  "\<not> required_missing q \<Longrightarrow> positive_number (parseFloat (to_string (areaSqFt q))) \<Longrightarrow>
   getWeatherData env now (to_string (latitude q)) (to_string (longitude q))
     (to_string (startDate q)) (to_string (endDate q)) s = (Inr wd, s') \<Longrightarrow>
   water_savings env now q s =
     (case process_weather env (parseFloat (to_string (areaSqFt q))) wd of
        Inl e \<Rightarrow> (Response 500 (ErrorBody (message e)), s')
      | Inr res \<Rightarrow> (res, s'))"
  by (simp add: water_savings_def Let_def not_valid_area)

lemma aggregate_status: "status (aggregate env area ds p) = 200"
  by (simp add: aggregate_def Let_def split: prod.split)

lemma process_weather_status:
  "process_weather env area wd = Inr res \<Longrightarrow> status res = 200 \<or> status res = 500"
  by (auto simp: process_weather_def invalid_structure_def aggregate_status
           split: sum.splits option.splits if_splits json.splits)

lemma water_savings_valid_status:
  assumes "\<not> required_missing q" "positive_number (parseFloat (to_string (areaSqFt q)))"
  shows "status (fst (water_savings env now q s)) \<noteq> 400"
proof -
  obtain r s' where g: "getWeatherData env now (to_string (latitude q)) (to_string (longitude q))
     (to_string (startDate q)) (to_string (endDate q)) s = (r, s')"
    by (cases "getWeatherData env now (to_string (latitude q)) (to_string (longitude q))
     (to_string (startDate q)) (to_string (endDate q)) s")
  show ?thesis
  proof (cases r)
    case (Inl e)
    with g assms show ?thesis by (simp add: water_savings_fetch_failed)
  next
    case (Inr wd)
    show ?thesis
    proof (cases "process_weather env (parseFloat (to_string (areaSqFt q))) wd")
      case (Inl e)
      with g Inr assms show ?thesis by (simp add: water_savings_fetched)
    next
      case (Inr res)
      with process_weather_status [OF Inr] g \<open>r = Inr wd\<close> assms show ?thesis
        by (auto simp: water_savings_fetched)
    qed
  qed
qed

subsection \<open>Values of \<open>parseFloat\<close>\<close>

lemma parseFloat_neg5: "parseFloat ''-5'' = Fin (- 5)"
  by code_simp

lemma parseFloat_abc: "parseFloat ''abc'' = NaN"
  by code_simp

lemma parseFloat_1000: "parseFloat ''1000'' = Fin 1000"
  by code_simp


lemma example_query_valid:
  "a \<noteq> [] \<Longrightarrow> \<not> required_missing (example_query a)"
  "to_string (latitude (example_query a)) = ''51.5''"
  "to_string (longitude (example_query a)) = ''-0.12''"
  "to_string (startDate (example_query a)) = ''2024-01-01''"
  "to_string (endDate (example_query a)) = ''2024-01-02''"
  "to_string (areaSqFt (example_query a)) = a"
  by (simp_all add: required_missing_def missing_def example_query_def to_string_def)

subsection \<open>Validation (claim C6)\<close>

text \<open>
  Claim C6. The handler answers 400 exactly when validation fails, that is when one of
  the five parameters is missing (absent or empty) or \<open>parseFloat(areaSqFt)\<close> is not a
  positive number. A missing parameter gives the body \<open>Missing required parameters
  (...)\<close>; with all five present, an area that is not a positive number gives \<open>Invalid
  area value\<close>, as for \<open>areaSqFt=-5\<close> and \<open>areaSqFt=abc\<close>. In both cases the server
  state is returned as it was: nothing was fetched, cached or aggregated.
\<close>

theorem validation_400:
  "(status (fst (water_savings env now q s)) = 400) =
     (required_missing q \<or> \<not> positive_number (parseFloat (to_string (areaSqFt q))))
   \<and> (latitude q = None \<or> longitude q = None \<or> startDate q = None \<or> endDate q = None
        \<or> areaSqFt q = None \<longrightarrow> required_missing q)
   \<and> (required_missing q \<longrightarrow> water_savings env now q s = (missing_parameters, s))
   \<and> (\<not> required_missing q \<and> \<not> positive_number (parseFloat (to_string (areaSqFt q)))
        \<longrightarrow> water_savings env now q s = (invalid_area, s))
   \<and> \<not> positive_number (parseFloat ''-5'') \<and> \<not> positive_number (parseFloat ''abc'')"
proof -
  have a: "(status (fst (water_savings env now q s)) = 400) =
     (required_missing q \<or> \<not> positive_number (parseFloat (to_string (areaSqFt q))))"
  proof (cases "required_missing q")
    case True
    then show ?thesis by (simp add: water_savings_missing missing_parameters_def)
  next
    case False
    show ?thesis
    proof (cases "positive_number (parseFloat (to_string (areaSqFt q)))")
      case True
      with False water_savings_valid_status show ?thesis by simp
    next
      case nv: False
      with False show ?thesis by (simp add: water_savings_invalid_area invalid_area_def)
    qed
  qed
  have b: "latitude q = None \<or> longitude q = None \<or> startDate q = None \<or> endDate q = None
        \<or> areaSqFt q = None \<longrightarrow> required_missing q"
    by (auto simp: required_missing_def missing_def)
  have c: "\<not> positive_number (parseFloat ''-5'')" "\<not> positive_number (parseFloat ''abc'')"
    by (simp_all add: parseFloat_neg5 parseFloat_abc positive_number_def)
  from a b c show ?thesis
    by (simp add: water_savings_missing water_savings_invalid_area)
qed

theorem validation_400_witness:
  "water_savings (example_host 0 (Inr JNull)) 0 (example_query ''-5'') fresh_server
     = (invalid_area, fresh_server)
   \<and> status (fst (water_savings (example_host 0 (Inr JNull)) 0 (example_query ''-5'') fresh_server))
     = 400"
proof -
  have h: "\<not> required_missing (example_query ''-5'')
    \<and> \<not> positive_number (parseFloat (to_string (areaSqFt (example_query ''-5''))))"
    by (simp add: example_query_valid parseFloat_neg5 positive_number_def)
  note t = validation_400 [of "example_host 0 (Inr JNull)" 0 "example_query ''-5''" fresh_server]
  from t h have 1: "water_savings (example_host 0 (Inr JNull)) 0 (example_query ''-5'') fresh_server
     = (invalid_area, fresh_server)"
    by blast
  from t h have 2: "status (fst (water_savings (example_host 0 (Inr JNull)) 0 (example_query ''-5'') fresh_server))
     = 400"
    by blast
  from 1 2 show ?thesis by blast
qed

subsection \<open>The shape check and the loop\<close>


lemma member_get_prop: "get_prop v n = Inr (Some x) \<Longrightarrow> member v n = Some x"
  by (cases v) (simp_all add: member_def get_prop_def)



lemma process_weather_200:
  assumes "process_weather env area wd = Inr (Response 200 b)"
  shows "\<exists>h ds p. member wd ''hourly'' = Some h \<and> member h ''time'' = Some (JArr ds)
           \<and> member h ''precipitation'' = Some p \<and> Response 200 b = aggregate env area ds p"
  using assms
  by (auto simp: process_weather_def invalid_structure_def member_get_prop
           split: sum.splits option.splits if_splits json.splits)

lemma loop_body_total:
  "snd (loop_body env area p d i (m, t)) =
     js_add t (js_mul (js_mul area (ToNumber (index_prop p i))) (Fin (929 / 10000)))"
  by (simp add: loop_body_def Let_def)





subsection \<open>Arrays of unequal length (claim C10)\<close>


lemma getWeatherData_fresh:
  "getWeatherData (example_host off (Inr v)) now a b c d fresh_server =
     (Inr v, \<lparr>cache = cache_set (now + 250) (cache_key a b c d) v Map.empty,
              requests = [request_params a b c d]\<rparr>)"
  by (simp add: getWeatherData_def example_host_def fresh_server_def cache_get_def Let_def)



subsection \<open>Evaluating \<open>show_nat\<close>\<close>

lemma show_nat_digit: "n < 10 \<Longrightarrow> show_nat n = [digit_char n]"
  by (simp add: show_nat.simps [of n])

lemma show_nat_step: "10 \<le> n \<Longrightarrow> show_nat n = show_nat (n div 10) @ [digit_char (n mod 10)]"
  by (simp add: show_nat.simps [of n])

lemmas show_nat_eval = show_nat_digit show_nat_step digit_char_def

lemmas iso_eval = iso_month_def parse_iso_def two_digits_def digit_of_def iso_time_def
  iso_seconds_def iso_zone_def days_in_month_def leap_year_def year_month_def zero_fill_def
  show_nat_eval

subsection \<open>The worked example (claim C9)\<close>

lemma moment_format_new_year: "moment_format env (JStr ''2024-01-01T00:00'') = ''2024-01''"
  by (simp add: moment_format_def iso_eval)

lemma toFixed_929: "toFixed b 2 (Fin 929) = ''929.00''"
  by (simp add: toFixed_def zero_fill_def Let_def show_nat_eval)

lemma toFixed_money: "toFixed b 2 (Fin (2787 / 2000)) = ''1.39''"
  by (simp add: toFixed_def zero_fill_def Let_def show_nat_eval)

lemma forEach_single_entry:
  "forEach env (Fin 1000) (JArr [JNum (Fin 10)]) 0 [JStr ''2024-01-01T00:00''] ([], Fin 0)
     = ([(''2024-01'', Fin 929)], Fin 929)"
  by (simp add: loop_body_def Let_def moment_format_new_year bucket_falsy_def read_bucket_def
        ToNumber_def)

lemma aggregate_single_entry:
  "aggregate env (Fin 1000) [JStr ''2024-01-01T00:00''] (JArr [JNum (Fin 10)]) =
     Response 200 (ReportBody \<lparr>monthlyWaterCollected = [(''2024-01'', Fin 929)],
       totalWaterCollected = ''929.00'', moneySaved = ''1.39'',
       waterCostPer1000LitrePounds = Fin (3 / 2), waterCollectedFormula = formula_text\<rparr>)"
  by (simp only: aggregate_def forEach_single_entry)
     (simp add: Let_def WATER_COST_PER_1000_LITRES_def toFixed_929 toFixed_money)

lemma process_weather_payload:
  "process_weather env area (series_payload ts ps) = Inr (aggregate env area ts (JArr ps))"
  by (simp add: process_weather_def get_prop_def series_payload_def)

lemma water_savings_example:
  "a \<noteq> [] \<Longrightarrow> positive_number (parseFloat a) \<Longrightarrow>
   fst (water_savings (example_host off (Inr (series_payload ts ps))) now (example_query a)
          fresh_server) =
     aggregate (example_host off (Inr (series_payload ts ps))) (parseFloat a) ts (JArr ps)"
proof -
  assume a: "a \<noteq> []" "positive_number (parseFloat a)"
  have 1: "\<not> required_missing (example_query a)"
    using a by (simp add: example_query_valid)
  have 2: "positive_number (parseFloat (to_string (areaSqFt (example_query a))))"
    using a by (simp add: example_query_valid)
  from water_savings_fetched [OF 1 2 getWeatherData_fresh] show ?thesis
    by (simp add: example_query_valid process_weather_payload)
qed

lemma water_savings_single_entry:
  "fst (water_savings
     (example_host off (Inr (series_payload [JStr ''2024-01-01T00:00''] [JNum (Fin 10)])))
     now (example_query ''1000'') fresh_server) =
   Response 200 (ReportBody \<lparr>monthlyWaterCollected = [(''2024-01'', Fin 929)],
       totalWaterCollected = ''929.00'', moneySaved = ''1.39'',
       waterCostPer1000LitrePounds = Fin (3 / 2), waterCollectedFormula = formula_text\<rparr>)"
  by (simp add: water_savings_example parseFloat_1000 positive_number_def aggregate_single_entry)

lemma toFixed_two_near:
  assumes "real n - 1 / 2 \<le> x * 100" "x * 100 < real n + 1 / 2" "0 \<le> x" "x < 10 ^ 21"
  shows "toFixed b 2 (Fin x) =
     take (length (zero_fill 3 n) - 2) (zero_fill 3 n) @ ''.''
       @ drop (length (zero_fill 3 n) - 2) (zero_fill 3 n)"
proof -
  have "\<lfloor>x * 100 + 1 / 2\<rfloor> = int n"
    using assms(1,2) by (intro floor_unique) auto
  then have "nat \<lfloor>\<bar>x\<bar> * 10 ^ 2 + 1 / 2\<rfloor> = n"
    using assms(3) by simp
  with assms(3,4) show ?thesis
    by (simp add: toFixed_def Let_def)
qed

lemma toFixed_near_929:
  assumes "\<bar>x - 929\<bar> \<le> 1 / 1000"
  shows "toFixed b 2 (Fin x) = ''929.00''"
proof -
  from assms have b: "929 - 1 / 1000 \<le> x" "x \<le> 929 + 1 / 1000"
    by linarith+
  then have "real 92900 - 1 / 2 \<le> x * 100" "x * 100 < real 92900 + 1 / 2" "0 \<le> x"
    "x < 10 ^ 21"
    by simp_all
  from toFixed_two_near [OF this] show ?thesis
    by (simp add: zero_fill_def show_nat_eval)
qed

lemma toFixed_near_money:
  assumes "\<bar>y - 2787 / 2000\<bar> \<le> 1 / 1000"
  shows "toFixed b 2 (Fin y) = ''1.39''"
proof -
  from assms have b: "2787 / 2000 - 1 / 1000 \<le> y" "y \<le> 2787 / 2000 + 1 / 1000"
    by linarith+
  then have "real 139 - 1 / 2 \<le> y * 100" "y * 100 < real 139 + 1 / 2" "0 \<le> y"
    "y < 10 ^ 21"
    by simp_all
  from toFixed_two_near [OF this] show ?thesis
    by (simp add: zero_fill_def show_nat_eval)
qed

text \<open>
  Claim C9. With \<open>areaSqFt=1000\<close> and a series of one hourly entry of 10 mm on
  2024-01-01, the response reports \<open>totalWaterCollected\<close> as \<open>929.00\<close>
  (\<open>1000 * 10 * 0.0929\<close>) and \<open>moneySaved\<close> as \<open>1.39\<close> (\<open>929 / 1000 * 1.5 = 1.3935\<close>
  to two decimals): for the body of the \<open>try\<close> block under every environment, and for
  the handler on a host that fetches this payload. The two strings do not hang on the
  last digits of the numbers printed: every total within 0.001 of 929 prints as
  \<open>929.00\<close>, and every amount within 0.001 of 1.3935 prints as \<open>1.39\<close>.
\<close>

theorem single_entry_example:
  "process_weather env (parseFloat ''1000'')
       (series_payload [JStr ''2024-01-01T00:00''] [JNum (Fin 10)]) =
     Inr (Response 200 (ReportBody \<lparr>monthlyWaterCollected = [(''2024-01'', Fin 929)],
       totalWaterCollected = ''929.00'', moneySaved = ''1.39'',
       waterCostPer1000LitrePounds = Fin (3 / 2), waterCollectedFormula = formula_text\<rparr>))
   \<and> fst (water_savings
       (example_host off (Inr (series_payload [JStr ''2024-01-01T00:00''] [JNum (Fin 10)])))
       now (example_query ''1000'') fresh_server) =
     Response 200 (ReportBody \<lparr>monthlyWaterCollected = [(''2024-01'', Fin 929)],
       totalWaterCollected = ''929.00'', moneySaved = ''1.39'',
       waterCostPer1000LitrePounds = Fin (3 / 2), waterCollectedFormula = formula_text\<rparr>)
   \<and> (\<forall>x. \<bar>x - 929\<bar> \<le> 1 / 1000 \<longrightarrow> toFixed (big_to_string env) 2 (Fin x) = ''929.00'')
   \<and> (\<forall>y. \<bar>y - 929 / 1000 * (3 / 2)\<bar> \<le> 1 / 1000 \<longrightarrow>
          toFixed (big_to_string env) 2 (Fin y) = ''1.39'')"
proof -
  have 1: "\<forall>x. \<bar>x - 929\<bar> \<le> 1 / 1000 \<longrightarrow> toFixed (big_to_string env) 2 (Fin x) = ''929.00''"
    by (simp add: toFixed_near_929)
  have 2: "\<forall>y. \<bar>y - 929 / 1000 * (3 / 2)\<bar> \<le> 1 / 1000 \<longrightarrow>
          toFixed (big_to_string env) 2 (Fin y) = ''1.39''"
    using toFixed_near_money [of _ "big_to_string env"] by simp
  from 1 2 show ?thesis
    by (simp only: parseFloat_1000 process_weather_payload aggregate_single_entry
          water_savings_single_entry simp_thms)
qed

theorem single_entry_example_witness:
  "toFixed (\<lambda>r. ''1e+21'') 2 (Fin (929 + 1 / 10000000000)) = ''929.00''
   \<and> toFixed (\<lambda>r. ''1e+21'') 2 (Fin (929 / 1000 * (3 / 2) - 1 / 10000000000)) = ''1.39''"
proof -
  have e: "big_to_string (example_host 0 (Inr JNull)) = (\<lambda>r. ''1e+21'')"
    by (simp add: example_host_def)
  note t = single_entry_example [of "example_host 0 (Inr JNull)" 0 0, unfolded e]
  have a: "\<bar>(929 + 1 / 10000000000) - 929\<bar> \<le> (1 / 1000 :: real)"
    by simp
  have b: "\<bar>(929 / 1000 * (3 / 2) - 1 / 10000000000) - 929 / 1000 * (3 / 2)\<bar> \<le> (1 / 1000 :: real)"
    by simp
  from t a have 1: "toFixed (\<lambda>r. ''1e+21'') 2 (Fin (929 + 1 / 10000000000)) = ''929.00''"
    by blast
  from t b have 2:
    "toFixed (\<lambda>r. ''1e+21'') 2 (Fin (929 / 1000 * (3 / 2) - 1 / 10000000000)) = ''1.39''"
    by blast
  from 1 2 show ?thesis by blast
qed

subsection \<open>Money saved (claim C3)\<close>

lemma water_savings_200:
  assumes "fst (water_savings env now q s) = Response 200 b"
  shows "\<exists>wd s'. getWeatherData env now (to_string (latitude q)) (to_string (longitude q))
           (to_string (startDate q)) (to_string (endDate q)) s = (Inr wd, s')
         \<and> process_weather env (parseFloat (to_string (areaSqFt q))) wd = Inr (Response 200 b)"
proof -
  have m: "\<not> required_missing q"
  proof
    assume "required_missing q"
    with assms show False by (simp add: water_savings_missing missing_parameters_def)
  qed
  have p: "positive_number (parseFloat (to_string (areaSqFt q)))"
  proof (rule ccontr)
    assume "\<not> positive_number (parseFloat (to_string (areaSqFt q)))"
    with m assms show False by (simp add: water_savings_invalid_area invalid_area_def)
  qed
  obtain r s' where g: "getWeatherData env now (to_string (latitude q)) (to_string (longitude q))
     (to_string (startDate q)) (to_string (endDate q)) s = (r, s')"
    by (cases "getWeatherData env now (to_string (latitude q)) (to_string (longitude q))
     (to_string (startDate q)) (to_string (endDate q)) s")
  show ?thesis
  proof (cases r)
    case (Inl e)
    with g m p assms show ?thesis by (simp add: water_savings_fetch_failed)
  next
    case (Inr wd)
    show ?thesis
    proof (cases "process_weather env (parseFloat (to_string (areaSqFt q))) wd")
      case (Inl e)
      with g m p assms \<open>r = Inr wd\<close> show ?thesis by (simp add: water_savings_fetched)
    next
      case pr: (Inr res)
      with g m p assms \<open>r = Inr wd\<close> show ?thesis by (simp add: water_savings_fetched)
    qed
  qed
qed

text \<open>
  Claim C3. Every 200 response comes from a fetched payload whose arrays went through
  the loop, and with \<open>litres\<close> the unrounded total of that loop its \<open>moneySaved\<close> is
  \<open>(litres / 1000 * 1.5).toFixed(2)\<close>: the money is computed from the unrounded total
  at the fixed rate of 1.50 per 1000 litres and only then printed to two decimals,
  beside \<open>totalWaterCollected = litres.toFixed(2)\<close>. For a finite total \<open>t\<close> the number
  printed is \<open>t / 1000 * 1.5\<close>.
\<close>

theorem money_saved_from_total:
  assumes "fst (water_savings env now q s) = Response 200 b"
  shows "\<exists>monthly litres.
     b = ReportBody \<lparr>monthlyWaterCollected = monthly,
           totalWaterCollected = toFixed (big_to_string env) 2 litres,
           moneySaved = toFixed (big_to_string env) 2 (js_mul (js_div litres (Fin 1000)) (Fin (3 / 2))),
           waterCostPer1000LitrePounds = Fin (3 / 2),
           waterCollectedFormula = formula_text\<rparr>
     \<and> (\<exists>wd s' h ds p.
           getWeatherData env now (to_string (latitude q)) (to_string (longitude q))
             (to_string (startDate q)) (to_string (endDate q)) s = (Inr wd, s')
           \<and> member wd ''hourly'' = Some h \<and> member h ''time'' = Some (JArr ds)
           \<and> member h ''precipitation'' = Some p
           \<and> forEach env (parseFloat (to_string (areaSqFt q))) p 0 ds ([], Fin 0) = (monthly, litres))
     \<and> (\<forall>t. litres = Fin t \<longrightarrow>
           js_mul (js_div litres (Fin 1000)) (Fin (3 / 2)) = Fin (t / 1000 * (3 / 2)))"
proof -
  from water_savings_200 [OF assms] obtain wd s' where
    g: "getWeatherData env now (to_string (latitude q)) (to_string (longitude q))
           (to_string (startDate q)) (to_string (endDate q)) s = (Inr wd, s')"
    and pw: "process_weather env (parseFloat (to_string (areaSqFt q))) wd = Inr (Response 200 b)"
    by blast
  from process_weather_200 [OF pw] obtain h ds p where
    mem: "member wd ''hourly'' = Some h" "member h ''time'' = Some (JArr ds)"
      "member h ''precipitation'' = Some p"
    and agg: "Response 200 b = aggregate env (parseFloat (to_string (areaSqFt q))) ds p"
    by blast
  obtain monthly litres where
    f: "forEach env (parseFloat (to_string (areaSqFt q))) p 0 ds ([], Fin 0) = (monthly, litres)"
    by (cases "forEach env (parseFloat (to_string (areaSqFt q))) p 0 ds ([], Fin 0)")
  from agg f have b: "b = ReportBody \<lparr>monthlyWaterCollected = monthly,
           totalWaterCollected = toFixed (big_to_string env) 2 litres,
           moneySaved = toFixed (big_to_string env) 2 (js_mul (js_div litres (Fin 1000)) (Fin (3 / 2))),
           waterCostPer1000LitrePounds = Fin (3 / 2),
           waterCollectedFormula = formula_text\<rparr>"
    by (simp add: aggregate_def Let_def WATER_COST_PER_1000_LITRES_def)
  have fin: "\<forall>t. litres = Fin t \<longrightarrow>
           js_mul (js_div litres (Fin 1000)) (Fin (3 / 2)) = Fin (t / 1000 * (3 / 2))"
    by simp
  from b g mem f fin show ?thesis by blast
qed

theorem money_saved_from_total_witness:
  "\<exists>monthly litres.
     ReportBody \<lparr>monthlyWaterCollected = [(''2024-01'', Fin 929)],
       totalWaterCollected = ''929.00'', moneySaved = ''1.39'',
       waterCostPer1000LitrePounds = Fin (3 / 2), waterCollectedFormula = formula_text\<rparr>
     = ReportBody \<lparr>monthlyWaterCollected = monthly,
           totalWaterCollected = toFixed (\<lambda>r. ''1e+21'') 2 litres,
           moneySaved = toFixed (\<lambda>r. ''1e+21'') 2 (js_mul (js_div litres (Fin 1000)) (Fin (3 / 2))),
           waterCostPer1000LitrePounds = Fin (3 / 2),
           waterCollectedFormula = formula_text\<rparr>"
proof -
  have e: "big_to_string (example_host 0 (Inr (series_payload [JStr ''2024-01-01T00:00''] [JNum (Fin 10)])))
     = (\<lambda>r. ''1e+21'')"
    by (simp add: example_host_def)
  from money_saved_from_total [OF water_savings_single_entry [of 0 0]] show ?thesis
    unfolding e by blast
qed

subsection \<open>Buckets of finite numbers\<close>








subsection \<open>The total and the buckets (claim C1)\<close>









subsection \<open>One pair of the series (claim C2)\<close>

lemma forEach_snoc:
  "forEach env area p i (ds @ [d]) acc =
     loop_body env area p d (i + length ds) (forEach env area p i ds acc)"
  by (induction ds arbitrary: i acc) simp_all

text \<open>
  Claim C2. For every pair of the series, at whatever position: with \<open>monthly\<close> and
  \<open>litres\<close> the buckets and the total after the pairs before it, processing the pair
  adds \<open>w = area * rainfall * 0.0929\<close> to the total and to the bucket of the pair's
  month (counted from \<open>0\<close> when that bucket is absent or falsy), and leaves every other
  bucket as it was. \<open>rainfall\<close> is the value at the pair's index as a number; for a
  finite area \<open>a\<close> and a finite rainfall \<open>r\<close> of any sign \<open>w\<close> is the number
  \<open>a * r * 0.0929\<close>: a negative or zero rainfall is not clamped.
\<close>

theorem litres_per_hour:
  assumes "forEach env area precipitation 0 ds ([], Fin 0) = (monthly, litres)"
    and "forEach env area precipitation 0 (ds @ [date]) ([], Fin 0) = (monthly', litres')"
    and "month = moment_format env date"
    and "rainfall = ToNumber (index_prop precipitation (length ds))"
    and "w = js_mul (js_mul area rainfall) (Fin (929 / 10000))"
  shows "litres' = js_add litres w
    \<and> map_of monthly' month =
        Some (js_add (if bucket_falsy monthly month then Fin 0 else read_bucket monthly month) w)
    \<and> (\<forall>k. k \<noteq> month \<longrightarrow> map_of monthly' k = map_of monthly k)
    \<and> (\<forall>a r. area = Fin a \<and> rainfall = Fin r \<longrightarrow> w = Fin (a * r * (929 / 10000)))"
proof -
  from assms(1,2) have l: "loop_body env area precipitation date (length ds) (monthly, litres)
      = (monthly', litres')"
    by (simp add: forEach_snoc)
  have 1: "litres' = js_add litres w"
    using l assms(4,5) loop_body_total [of env area precipitation date "length ds" monthly litres]
    by simp
  have 2: "map_of monthly' month =
        Some (js_add (if bucket_falsy monthly month then Fin 0 else read_bucket monthly month) w)"
    using l assms(3-5)
    by (auto simp: loop_body_def Let_def update_conv' read_bucket_def)
  have 3: "\<forall>k. k \<noteq> month \<longrightarrow> map_of monthly' k = map_of monthly k"
    using l assms(3) by (auto simp: loop_body_def Let_def update_conv')
  have 4: "\<forall>a r. area = Fin a \<and> rainfall = Fin r \<longrightarrow> w = Fin (a * r * (929 / 10000))"
    using assms(5) by simp
  from 1 2 3 4 show ?thesis by blast
qed

lemma forEach_negative_rain:
  "forEach env (Fin 1000) (JArr [JNum (Fin (- 2))]) 0 [JStr ''2024-01-01T00:00''] ([], Fin 0)
     = ([(''2024-01'', Fin (- (929 / 5)))], Fin (- (929 / 5)))"
  by (simp add: loop_body_def Let_def moment_format_new_year bucket_falsy_def read_bucket_def
        ToNumber_def)

theorem litres_per_hour_witness:
  "Fin (- (929 / 5)) = js_add (Fin 0) (Fin (1000 * (- 2) * (929 / 10000)))
   \<and> map_of [(''2024-01'', Fin (- (929 / 5)))] ''2024-01''
       = Some (js_add (Fin 0) (Fin (1000 * (- 2) * (929 / 10000))))"
proof -
  have e: "forEach (example_host 0 (Inr JNull)) (Fin 1000) (JArr [JNum (Fin (- 2))]) 0 []
      ([], Fin 0) = ([], Fin 0)"
    by simp
  have n: "forEach (example_host 0 (Inr JNull)) (Fin 1000) (JArr [JNum (Fin (- 2))]) 0
      ([] @ [JStr ''2024-01-01T00:00'']) ([], Fin 0)
      = ([(''2024-01'', Fin (- (929 / 5)))], Fin (- (929 / 5)))"
    using forEach_negative_rain by simp
  from litres_per_hour [OF e n refl refl refl] show ?thesis
    by (simp add: moment_format_new_year ToNumber_def bucket_falsy_def)
qed

subsection \<open>The fetcher, hit and miss\<close>

lemma getWeatherData_hit:
  "cache_get now (cache_key a b c d) (cache s) = Some v \<Longrightarrow> truthy v \<Longrightarrow>
   getWeatherData env now a b c d s = (Inr v, s)"
  by (simp add: getWeatherData_def Let_def)

lemma getWeatherData_miss:
  assumes "\<not> (\<exists>v. cache_get now (cache_key a b c d) (cache s) = Some v \<and> truthy v)"
  shows "getWeatherData env now a b c d s =
     (case axios_get env (request_params a b c d) now of
        (Inr data, took) \<Rightarrow>
          (Inr data,
           s\<lparr>requests := requests s @ [request_params a b c d],
             cache := cache_set (now + took) (cache_key a b c d) data (cache s)\<rparr>)
      | (Inl e, took) \<Rightarrow> (Inl e, s\<lparr>requests := requests s @ [request_params a b c d]\<rparr>))"
  using assms
  by (auto simp: getWeatherData_def Let_def split: option.splits prod.splits sum.splits)

lemma cache_get_set:
  "cache_get t k (cache_set t0 k v c) = (if t0 + stdTTL * 1000 < t then None else Some v)"
  by (simp add: cache_get_def cache_set_def stdTTL_def)

lemma cache_get_expired: "c k = Some (v, e) \<Longrightarrow> e \<noteq> 0 \<Longrightarrow> e < t \<Longrightarrow> cache_get t k c = None"
  by (simp add: cache_get_def)

subsection \<open>A failed fetch (claim C8)\<close>

text \<open>
  Claim C8. When the cache has no usable entry and the upstream call fails for good
  (the retries are inside the outcome of \<open>axios_get\<close>), the error leaves
  \<open>getWeatherData\<close> as it was thrown, the handler answers 500 with the error's message
  as its \<open>error\<close> field, and the cache is what it was before the request: nothing is
  stored under the key of the failed fetch. Only the log of upstream requests grows.
\<close>

theorem upstream_failure_500:
  assumes "\<not> required_missing q"
    and "positive_number (parseFloat (to_string (areaSqFt q)))"
    and "key = cache_key (to_string (latitude q)) (to_string (longitude q))
                 (to_string (startDate q)) (to_string (endDate q))"
    and "ps = request_params (to_string (latitude q)) (to_string (longitude q))
                 (to_string (startDate q)) (to_string (endDate q))"
    and "\<not> (\<exists>v. cache_get now key (cache s) = Some v \<and> truthy v)"
    and "axios_get env ps now = (Inl e, took)"
  shows "getWeatherData env now (to_string (latitude q)) (to_string (longitude q))
           (to_string (startDate q)) (to_string (endDate q)) s
         = (Inl e, s\<lparr>requests := requests s @ [ps]\<rparr>)
     \<and> water_savings env now q s
         = (Response 500 (ErrorBody (message e)), s\<lparr>requests := requests s @ [ps]\<rparr>)
     \<and> cache (snd (water_savings env now q s)) = cache s"
proof -
  have g: "getWeatherData env now (to_string (latitude q)) (to_string (longitude q))
           (to_string (startDate q)) (to_string (endDate q)) s
         = (Inl e, s\<lparr>requests := requests s @ [ps]\<rparr>)"
    using assms(3-6) by (simp add: getWeatherData_miss)
  from water_savings_fetch_failed [OF assms(1,2) g] g show ?thesis by simp
qed

theorem upstream_failure_500_witness:
  "water_savings (example_host 0 (Inl (AxiosError ''Request failed with status code 503'')))
      0 (example_query ''1000'') fresh_server
    = (Response 500 (ErrorBody ''Request failed with status code 503''),
       fresh_server\<lparr>requests := [request_params ''51.5'' ''-0.12'' ''2024-01-01'' ''2024-01-02'']\<rparr>)
   \<and> cache (snd (water_savings (example_host 0 (Inl (AxiosError ''Request failed with status code 503'')))
      0 (example_query ''1000'') fresh_server)) = Map.empty"
proof -
  let ?env = "example_host 0 (Inl (AxiosError ''Request failed with status code 503''))"
  have 1: "\<not> required_missing (example_query ''1000'')"
    by (simp add: example_query_valid)
  have 2: "positive_number (parseFloat (to_string (areaSqFt (example_query ''1000''))))"
    by (simp add: example_query_valid parseFloat_1000 positive_number_def)
  have 3: "\<not> (\<exists>v. cache_get 0 (cache_key ''51.5'' ''-0.12'' ''2024-01-01'' ''2024-01-02'')
              (cache fresh_server) = Some v \<and> truthy v)"
    by (simp add: cache_get_def fresh_server_def)
  have 4: "axios_get ?env (request_params ''51.5'' ''-0.12'' ''2024-01-01'' ''2024-01-02'') 0
      = (Inl (AxiosError ''Request failed with status code 503''), 250)"
    by (simp add: example_host_def)
  from upstream_failure_500 [of "example_query ''1000''" _ _ 0 fresh_server ?env, OF 1 2 _ _ _ _]
  show ?thesis
    using 3 4 by (simp add: example_query_valid fresh_server_def)
qed

subsection \<open>Two fetches (claim C5)\<close>

text \<open>
  Claim C5. Let a fetch at time \<open>t1\<close> miss the cache and get the series \<open>v\<close> from
  upstream after \<open>took\<close> milliseconds; \<open>v\<close> is stored then. A series is an object, so it
  is truthy. Every later fetch with the same latitude, longitude, start and end date
  that is issued within 3600 seconds of the insertion returns \<open>v\<close> from the cache and
  leaves the server as it is: no request goes upstream. After that window \<open>get\<close> no
  longer returns the entry, and no expired entry of the cache is ever returned.
\<close>

theorem second_fetch_hits_cache:
  assumes "key = cache_key a b c d"
    and "ps = request_params a b c d"
    and "\<not> (\<exists>u. cache_get t1 key (cache s) = Some u \<and> truthy u)"
    and "axios_get env ps t1 = (Inr v, took)"
    and "truthy v"
    and "s1 = snd (getWeatherData env t1 a b c d s)"
  shows "getWeatherData env t1 a b c d s = (Inr v, s1)
     \<and> requests s1 = requests s @ [ps]
     \<and> (\<forall>t2. t1 + took \<le> t2 \<and> t2 \<le> t1 + took + 3600 * 1000 \<longrightarrow>
           getWeatherData env t2 a b c d s1 = (Inr v, s1))
     \<and> (\<forall>t2. t1 + took + 3600 * 1000 < t2 \<longrightarrow> cache_get t2 key (cache s1) = None)
     \<and> (\<forall>k u e t. cache s1 k = Some (u, e) \<and> e \<noteq> 0 \<and> e < t \<longrightarrow> cache_get t k (cache s1) = None)"
proof -
  have g: "getWeatherData env t1 a b c d s =
      (Inr v, s\<lparr>requests := requests s @ [ps], cache := cache_set (t1 + took) key v (cache s)\<rparr>)"
    using assms(1-4) by (simp add: getWeatherData_miss)
  with assms(6) have s1: "s1 = s\<lparr>requests := requests s @ [ps],
      cache := cache_set (t1 + took) key v (cache s)\<rparr>"
    by simp
  have hit: "getWeatherData env t2 a b c d s1 = (Inr v, s1)"
    if "t2 \<le> t1 + took + 3600 * 1000" for t2
  proof -
    from that have "cache_get t2 (cache_key a b c d) (cache s1) = Some v"
      by (simp add: s1 assms(1) cache_get_set stdTTL_def)
    from getWeatherData_hit [OF this assms(5)] show ?thesis .
  qed
  have expired: "cache_get t2 key (cache s1) = None" if "t1 + took + 3600 * 1000 < t2" for t2
    using that by (simp add: s1 cache_get_set stdTTL_def)
  from g s1 hit expired show ?thesis
    by (auto simp: cache_get_expired)
qed

theorem second_fetch_hits_cache_witness:
  "getWeatherData (example_host 0 (Inr (series_payload [] []))) 1000
       ''51.5'' ''-0.12'' ''2024-01-01'' ''2024-01-02''
       (snd (getWeatherData (example_host 0 (Inr (series_payload [] []))) 0
               ''51.5'' ''-0.12'' ''2024-01-01'' ''2024-01-02'' fresh_server))
    = (Inr (series_payload [] []),
       snd (getWeatherData (example_host 0 (Inr (series_payload [] []))) 0
               ''51.5'' ''-0.12'' ''2024-01-01'' ''2024-01-02'' fresh_server))
   \<and> requests (snd (getWeatherData (example_host 0 (Inr (series_payload [] []))) 0
               ''51.5'' ''-0.12'' ''2024-01-01'' ''2024-01-02'' fresh_server))
      = [request_params ''51.5'' ''-0.12'' ''2024-01-01'' ''2024-01-02'']"
proof -
  let ?env = "example_host 0 (Inr (series_payload [] []))"
  have 3: "\<not> (\<exists>u. cache_get 0 (cache_key ''51.5'' ''-0.12'' ''2024-01-01'' ''2024-01-02'')
              (cache fresh_server) = Some u \<and> truthy u)"
    by (simp add: cache_get_def fresh_server_def)
  have 4: "axios_get ?env (request_params ''51.5'' ''-0.12'' ''2024-01-01'' ''2024-01-02'') 0
      = (Inr (series_payload [] []), 250)"
    by (simp add: example_host_def)
  have 5: "truthy (series_payload [] [])"
    by (simp add: series_payload_def)
  note t = second_fetch_hits_cache [OF refl refl 3 4 5 refl]
  from t have a: "0 + 250 \<le> (1000::nat) \<and> (1000::nat) \<le> 0 + 250 + 3600 * 1000 \<longrightarrow>
      getWeatherData ?env 1000 ''51.5'' ''-0.12'' ''2024-01-01'' ''2024-01-02''
       (snd (getWeatherData ?env 0 ''51.5'' ''-0.12'' ''2024-01-01'' ''2024-01-02'' fresh_server))
    = (Inr (series_payload [] []),
       snd (getWeatherData ?env 0 ''51.5'' ''-0.12'' ''2024-01-01'' ''2024-01-02'' fresh_server))"
    by blast
  from t have b: "requests (snd (getWeatherData ?env 0 ''51.5'' ''-0.12'' ''2024-01-01'' ''2024-01-02'' fresh_server))
      = requests fresh_server @ [request_params ''51.5'' ''-0.12'' ''2024-01-01'' ''2024-01-02'']"
    by blast
  from a b show ?thesis by (simp add: fresh_server_def)
qed

subsection \<open>A payload without the series (claim C7)\<close>







subsection \<open>Printing what was parsed\<close>








subsection \<open>The month label (claim C4)\<close>





end
